theory Spec2Isabelle
  imports Main
begin

section \<open>Values that cross the handler boundary\<close>

text \<open>
  Pointers are addresses into the stores of the program state. A panic carries a value;
  the handler only ever formats it with \<^verbatim>\<open>%v\<close> or re-raises it, so the value is
  identified with its \<^verbatim>\<open>%v\<close> rendering. Since Go 1.21 a panic always carries a non-nil
  value, so \<^verbatim>\<open>recover() != nil\<close> is exactly "the body panicked": a computation that may
  panic returns \<open>Inl rc\<close> (panicked with \<open>rc\<close>) or \<open>Inr v\<close> (returned \<open>v\<close>). A Go
  \<^verbatim>\<open>error\<close> is \<open>None\<close> for nil and \<open>Some e\<close> otherwise, \<open>e\<close> being its message.
\<close>

type_synonym addr = nat
type_synonym panic_value = string
type_synonym error = string

text \<open>The part of a \<^verbatim>\<open>*http.Request\<close> the library looks at.\<close>

record http_Request =
  Method :: string
  URL :: string
  Header :: "(string \<times> string list) list"
  Body :: string

definition StatusNotFound :: int where
  "StatusNotFound = 404"

section \<open>server.go: the data\<close>

text \<open>
  An \<^verbatim>\<open>http.HandlerFunc\<close> value is either the closure built by \<^verbatim>\<open>makeHandler(s)\<close>,
  which captures the pointer \<open>s\<close>, or a function supplied by the caller (of an opaque
  type \<open>'h\<close>, run by \<open>HandlerFunc_call\<close> below).
\<close>

datatype 'h HandlerFunc = Dispatch addr | Custom 'h

text \<open>What \<^verbatim>\<open>httptest.NewServer\<close> and \<^verbatim>\<open>httptest.NewTLSServer\<close> build: a listening
  server with the handler it was given.\<close>

record 'h httptest_Server =
  tls :: bool
  Config_Handler :: "'h HandlerFunc"

text \<open>\<^verbatim>\<open>type Server struct { *httptest.Server; Mock *Mock; ignorePanic bool }\<close>.
  The embedded pointer is nil (\<open>None\<close>) until the constructor assigns it.\<close>

record 'h Server =
  Server :: "'h httptest_Server option"
  Mock :: addr
  ignorePanic :: bool

text \<open>\<^verbatim>\<open>type ServerConfig struct { TLS bool; Handler http.HandlerFunc }\<close>; a nil
  \<^verbatim>\<open>Handler\<close> is \<open>None\<close>.\<close>

record 'h ServerConfig =
  TLS :: bool
  Handler :: "'h option"

text \<open>
  The program state: the \<^verbatim>\<open>Server\<close> and \<^verbatim>\<open>Mock\<close> objects by address, the next free
  address of each store (allocation takes it and moves on, so a fresh object never
  shares an address with an older one), and what has been printed to standard output.
  The type \<open>'m\<close> is the contents of a \<^verbatim>\<open>Mock\<close>.
\<close>

record ('m, 'h) state =
  servers :: "addr \<Rightarrow> 'h Server"
  mocks :: "addr \<Rightarrow> 'm"
  next_Server :: addr
  next_Mock :: addr
  stdout :: string

section \<open>What server.go calls but does not define\<close>

text \<open>
  The methods of \<^verbatim>\<open>Mock\<close>, \<^verbatim>\<open>Response\<close> and \<^verbatim>\<open>Request\<close> are defined in other files of
  the package, and \<^verbatim>\<open>http.ResponseWriter\<close> is an interface of the standard library, so
  they are parameters of the model. A method with a pointer receiver takes the object
  and returns it updated, with its result; any of the package's methods may panic.
  \<^item> \<open>Mock_zero\<close>: the zero value that \<^verbatim>\<open>new(Mock)\<close> allocates;
  \<^item> \<open>Mock_On m method URL body\<close>: \<^verbatim>\<open>(*Mock).On\<close>, returning the handle of the
    registered expectation (a \<^verbatim>\<open>*Request\<close>, here an identifier);
  \<^item> \<open>Mock_Requested m r\<close>: \<^verbatim>\<open>(*Mock).Requested\<close>, returning a response of type \<open>'p\<close>;
  \<^item> \<open>Mock_fail m format args\<close>: \<^verbatim>\<open>(*Mock).fail\<close>, the arguments already rendered;
  \<^item> \<open>Response_Write p w r\<close>: \<^verbatim>\<open>(*Response).Write\<close>, acting on the writer \<open>w\<close> of type
    \<open>'w\<close> and returning the byte count and the error;
  \<^item> \<open>Response_parent_String p\<close>: the expression \<^verbatim>\<open>response.parent.String()\<close>;
  \<^item> \<open>WriteHeader w code\<close>: \<^verbatim>\<open>http.ResponseWriter.WriteHeader\<close>;
  \<^item> \<open>HandlerFunc_call h w r \<sigma>\<close>: running a caller-supplied handler, which may do
    anything to the writer and the state, and may panic.
\<close>

record ('m, 'p, 'w, 'h) ops =
  Mock_zero :: 'm
  Mock_On :: "'m \<Rightarrow> string \<Rightarrow> string \<Rightarrow> string \<Rightarrow> 'm \<times> (panic_value + nat)"
  Mock_Requested :: "'m \<Rightarrow> http_Request \<Rightarrow> 'm \<times> (panic_value + 'p)"
  Mock_fail :: "'m \<Rightarrow> string \<Rightarrow> string list \<Rightarrow> 'm \<times> (panic_value + unit)"
  Response_Write :: "'p \<Rightarrow> 'w \<Rightarrow> http_Request \<Rightarrow> 'w \<times> (panic_value + int \<times> error option)"
  Response_parent_String :: "'p \<Rightarrow> panic_value + string"
  WriteHeader :: "'w \<Rightarrow> int \<Rightarrow> 'w"
  HandlerFunc_call ::
    "'h \<Rightarrow> 'w \<Rightarrow> http_Request \<Rightarrow> ('m, 'h) state \<Rightarrow> (panic_value + unit) \<times> 'w \<times> ('m, 'h) state"

text \<open>Calling a method through a \<^verbatim>\<open>*Mock\<close>: the object at that address is replaced by
  the one the method leaves behind.\<close>

definition call_On ::
  "('m, 'p, 'w, 'h) ops \<Rightarrow> addr \<Rightarrow> string \<Rightarrow> string \<Rightarrow> string \<Rightarrow> ('m, 'h) state
    \<Rightarrow> (panic_value + nat) \<times> ('m, 'h) state" where
  "call_On ops m method url body \<sigma> =
     (case Mock_On ops (mocks \<sigma> m) method url body of
        (m', res) \<Rightarrow> (res, \<sigma>\<lparr>mocks := (mocks \<sigma>)(m := m')\<rparr>))"

definition call_Requested ::
  "('m, 'p, 'w, 'h) ops \<Rightarrow> addr \<Rightarrow> http_Request \<Rightarrow> ('m, 'h) state
    \<Rightarrow> (panic_value + 'p) \<times> ('m, 'h) state" where
  "call_Requested ops m r \<sigma> =
     (case Mock_Requested ops (mocks \<sigma> m) r of
        (m', res) \<Rightarrow> (res, \<sigma>\<lparr>mocks := (mocks \<sigma>)(m := m')\<rparr>))"

definition call_fail ::
  "('m, 'p, 'w, 'h) ops \<Rightarrow> addr \<Rightarrow> string \<Rightarrow> string list \<Rightarrow> ('m, 'h) state
    \<Rightarrow> (panic_value + unit) \<times> ('m, 'h) state" where
  "call_fail ops m format args \<sigma> =
     (case Mock_fail ops (mocks \<sigma> m) format args of
        (m', res) \<Rightarrow> (res, \<sigma>\<lparr>mocks := (mocks \<sigma>)(m := m')\<rparr>))"

section \<open>server.go: the operations\<close>

text \<open>\<^verbatim>\<open>func (s *Server) IsRecoverable() bool { return !s.ignorePanic }\<close>\<close>

definition IsRecoverable :: "addr \<Rightarrow> ('m, 'h) state \<Rightarrow> bool" where
  "IsRecoverable s \<sigma> = (\<not> ignorePanic (servers \<sigma> s))"

text \<open>\<^verbatim>\<open>func (s *Server) NotRecoverable() *Server { s.ignorePanic = true; return s }\<close>\<close>

definition NotRecoverable :: "addr \<Rightarrow> ('m, 'h) state \<Rightarrow> addr \<times> ('m, 'h) state" where
  "NotRecoverable s \<sigma> =
     (s, \<sigma>\<lparr>servers := (servers \<sigma>)(s := (servers \<sigma> s)\<lparr>ignorePanic := True\<rparr>)\<rparr>)"

text \<open>\<^verbatim>\<open>func (s *Server) On(method, URL string, body []byte) *Request
  { return s.Mock.On(method, URL, body) }\<close>\<close>

definition On ::
  "('m, 'p, 'w, 'h) ops \<Rightarrow> addr \<Rightarrow> string \<Rightarrow> string \<Rightarrow> string \<Rightarrow> ('m, 'h) state
    \<Rightarrow> (panic_value + nat) \<times> ('m, 'h) state" where
  "On ops s method url body \<sigma> = call_On ops (Mock (servers \<sigma> s)) method url body \<sigma>"

text \<open>The format string of the failure that the handler reports.\<close>

definition write_failed_format :: string where
  "write_failed_format =
     ''failed to write response for request:'' @ [CHR 0x0A] @ ''%s'' @ [CHR 0x0A]
       @ ''with error: %v''"

text \<open>
  The two statements of the handler's body (lines 51 to 54), up to the point where it
  returns or panics: the outcome, the writer and the state at that point.
\<close>

definition makeHandler_body ::
  "('m, 'p, 'w, 'h) ops \<Rightarrow> addr \<Rightarrow> 'w \<Rightarrow> http_Request \<Rightarrow> ('m, 'h) state
    \<Rightarrow> (panic_value + unit) \<times> 'w \<times> ('m, 'h) state" where
  "makeHandler_body ops s w r \<sigma> =
     (case call_Requested ops (Mock (servers \<sigma> s)) r \<sigma> of
        (Inl rc, \<sigma>1) \<Rightarrow> (Inl rc, w, \<sigma>1)
      | (Inr response, \<sigma>1) \<Rightarrow>
          (case Response_Write ops response w r of
             (w1, Inl rc) \<Rightarrow> (Inl rc, w1, \<sigma>1)
           | (w1, Inr (n, None)) \<Rightarrow> (Inr (), w1, \<sigma>1)
           | (w1, Inr (n, Some err)) \<Rightarrow>
               (case Response_parent_String ops response of
                  Inl rc \<Rightarrow> (Inl rc, w1, \<sigma>1)
                | Inr str \<Rightarrow>
                    (case call_fail ops (Mock (servers \<sigma>1 s)) write_failed_format [str, err] \<sigma>1 of
                       (res, \<sigma>2) \<Rightarrow> (res, w1, \<sigma>2)))))"

text \<open>
  The handler that \<^verbatim>\<open>makeHandler(s)\<close> returns, applied to \<open>w\<close> and \<open>r\<close>: the body under
  its deferred function. When the body panicked with \<open>rc\<close>, the deferred function
  recovers; on a recoverable server it prints \<open>rc\<close> and a newline and calls
  \<^verbatim>\<open>w.WriteHeader(http.StatusNotFound)\<close>, and the handler returns; otherwise it panics
  with \<open>rc\<close> again.
\<close>

definition makeHandler ::
  "('m, 'p, 'w, 'h) ops \<Rightarrow> addr \<Rightarrow> 'w \<Rightarrow> http_Request \<Rightarrow> ('m, 'h) state
    \<Rightarrow> (panic_value + unit) \<times> 'w \<times> ('m, 'h) state" where
  "makeHandler ops s w r \<sigma> =
     (case makeHandler_body ops s w r \<sigma> of
        (Inr u, w1, \<sigma>1) \<Rightarrow> (Inr u, w1, \<sigma>1)
      | (Inl rc, w1, \<sigma>1) \<Rightarrow>
          if IsRecoverable s \<sigma>1
          then (Inr (), WriteHeader ops w1 StatusNotFound,
                \<sigma>1\<lparr>stdout := stdout \<sigma>1 @ rc @ [CHR 0x0A]\<rparr>)
          else (Inl rc, w1, \<sigma>1))"

text \<open>Allocation: \<^verbatim>\<open>new(Mock)\<close> and \<^verbatim>\<open>&Server{...}\<close>.\<close>

definition new_Mock :: "('m, 'p, 'w, 'h) ops \<Rightarrow> ('m, 'h) state \<Rightarrow> addr \<times> ('m, 'h) state" where
  "new_Mock ops \<sigma> =
     (next_Mock \<sigma>,
      \<sigma>\<lparr>mocks := (mocks \<sigma>)(next_Mock \<sigma> := Mock_zero ops), next_Mock := Suc (next_Mock \<sigma>)\<rparr>)"

definition new_Server :: "'h Server \<Rightarrow> ('m, 'h) state \<Rightarrow> addr \<times> ('m, 'h) state" where
  "new_Server v \<sigma> =
     (next_Server \<sigma>,
      \<sigma>\<lparr>servers := (servers \<sigma>)(next_Server \<sigma> := v), next_Server := Suc (next_Server \<sigma>)\<rparr>)"

definition httptest_NewServer :: "'h HandlerFunc \<Rightarrow> 'h httptest_Server" where
  "httptest_NewServer handler = \<lparr>tls = False, Config_Handler = handler\<rparr>"

definition httptest_NewTLSServer :: "'h HandlerFunc \<Rightarrow> 'h httptest_Server" where
  "httptest_NewTLSServer handler = \<lparr>tls = True, Config_Handler = handler\<rparr>"

text \<open>\<^verbatim>\<open>s.Server = v\<close>\<close>

definition set_Server :: "addr \<Rightarrow> 'h httptest_Server \<Rightarrow> ('m, 'h) state \<Rightarrow> ('m, 'h) state" where
  "set_Server s v \<sigma> = \<sigma>\<lparr>servers := (servers \<sigma>)(s := (servers \<sigma> s)\<lparr>Server := Some v\<rparr>)\<rparr>"

text \<open>\<^verbatim>\<open>func NewServer() *Server\<close>\<close>

definition NewServer :: "('m, 'p, 'w, 'h) ops \<Rightarrow> ('m, 'h) state \<Rightarrow> addr \<times> ('m, 'h) state" where
  "NewServer ops \<sigma> =
     (case new_Mock ops \<sigma> of (m, \<sigma>1) \<Rightarrow>
      case new_Server \<lparr>Server = None, Mock = m, ignorePanic = False\<rparr> \<sigma>1 of (s, \<sigma>2) \<Rightarrow>
        (s, set_Server s (httptest_NewServer (Dispatch s)) \<sigma>2))"

text \<open>\<^verbatim>\<open>func NewServerWithConfig(cfg ServerConfig) *Server\<close>\<close>

definition NewServerWithConfig ::
  "('m, 'p, 'w, 'h) ops \<Rightarrow> 'h ServerConfig \<Rightarrow> ('m, 'h) state \<Rightarrow> addr \<times> ('m, 'h) state" where
  "NewServerWithConfig ops cfg \<sigma> =
     (case new_Mock ops \<sigma> of (m, \<sigma>1) \<Rightarrow>
      case new_Server \<lparr>Server = None, Mock = m, ignorePanic = False\<rparr> \<sigma>1 of (s, \<sigma>2) \<Rightarrow>
        let handler = (case Handler cfg of None \<Rightarrow> Dispatch s | Some h \<Rightarrow> Custom h) in
          if TLS cfg
          then (s, set_Server s (httptest_NewTLSServer handler) \<sigma>2)
          else (s, set_Server s (httptest_NewServer handler) \<sigma>2))"

text \<open>
  What the \<^verbatim>\<open>httptest.Server\<close> does with an inbound request: it calls the handler it was
  built with.
\<close>

definition ServeHTTP ::
  "('m, 'p, 'w, 'h) ops \<Rightarrow> 'h httptest_Server \<Rightarrow> 'w \<Rightarrow> http_Request \<Rightarrow> ('m, 'h) state
    \<Rightarrow> (panic_value + unit) \<times> 'w \<times> ('m, 'h) state" where
  "ServeHTTP ops ts w r \<sigma> =
     (case Config_Handler ts of
        Dispatch s \<Rightarrow> makeHandler ops s w r \<sigma>
      | Custom h \<Rightarrow> HandlerFunc_call ops h w r \<sigma>)"

section \<open>Sequences of package operations\<close>

text \<open>
  The operations of server.go that a test can invoke: the two constructors, the three
  methods of a \<^verbatim>\<open>Server\<close>, and the arrival of a request at the handler that
  \<^verbatim>\<open>makeHandler(s)\<close> built. \<open>exec\<close> runs one of them and keeps the state it leaves.
\<close>

datatype ('w, 'h) pkg_call =
    Call_NewServer
  | Call_NewServerWithConfig "'h ServerConfig"
  | Call_NotRecoverable addr
  | Call_IsRecoverable addr
  | Call_On addr string string string
  | Call_handler addr 'w http_Request

fun exec ::
  "('m, 'p, 'w, 'h) ops \<Rightarrow> ('w, 'h) pkg_call \<Rightarrow> ('m, 'h) state \<Rightarrow> ('m, 'h) state" where
  "exec ops Call_NewServer \<sigma> = snd (NewServer ops \<sigma>)"
| "exec ops (Call_NewServerWithConfig cfg) \<sigma> = snd (NewServerWithConfig ops cfg \<sigma>)"
| "exec ops (Call_NotRecoverable s) \<sigma> = snd (NotRecoverable s \<sigma>)"
| "exec ops (Call_IsRecoverable s) \<sigma> = \<sigma>"
| "exec ops (Call_On s method url body) \<sigma> = snd (On ops s method url body \<sigma>)"
| "exec ops (Call_handler s w r) \<sigma> = snd (snd (makeHandler ops s w r \<sigma>))"

fun execs ::
  "('m, 'p, 'w, 'h) ops \<Rightarrow> ('w, 'h) pkg_call list \<Rightarrow> ('m, 'h) state \<Rightarrow> ('m, 'h) state" where
  "execs ops [] \<sigma> = \<sigma>"
| "execs ops (c # cs) \<sigma> = execs ops cs (exec ops c \<sigma>)"



text \<open>The state of a process that has constructed nothing and printed nothing.\<close>

definition initial :: "('m, 'p, 'w, 'h) ops \<Rightarrow> ('m, 'h) state" where
  "initial ops =
     \<lparr>servers = (\<lambda>a. \<lparr>Server = None, Mock = 0, ignorePanic = False\<rparr>),
      mocks = (\<lambda>a. Mock_zero ops), next_Server = 0, next_Mock = 0, stdout = []\<rparr>"

section \<open>The matching engine, from the specification\<close>

text \<open>
  Modelled from the spec: the types \<^verbatim>\<open>Mock\<close>, \<^verbatim>\<open>Request\<close> and \<^verbatim>\<open>Response\<close> and their
  methods are not in server.go. The records follow the data model of the specification
  (section 3): an expectation has a method, a URL pattern (a string or a predicate), an
  optional body matcher, header matchers, a response, the number of matches allowed
  (\<open>None\<close> when unbounded) and the number granted so far. The response also carries
  the rendering of the expectation that owns it, which server.go reads as
  \<^verbatim>\<open>response.parent.String()\<close>. A delay is a duration and plays no part in what is
  matched or written, so it is kept as data only.
\<close>

datatype url_pattern = Exact string | Predicate "string \<Rightarrow> bool"

record Response =
  statusCode :: int
  headers :: "(string \<times> string list) list"
  body :: string
  delay :: "nat option"
  parent :: string

record Expectation =
  httpMethod :: string
  urlPattern :: url_pattern
  bodyMatcher :: "(string \<Rightarrow> bool) option"
  headerMatchers :: "(string \<times> (string list \<Rightarrow> bool)) list"
  response :: Response
  timesExpected :: "nat option"
  timesMatched :: nat

record Registry =
  expectations :: "Expectation list"
  failures :: "string list"

text \<open>
  Modelled from the spec: the matcher of section 4.1. The method is compared exactly,
  an empty method matching any; the URL is compared exactly unless the expectation has
  a predicate; a body matcher, when there is one, must accept the body; every header
  matcher must accept the values of a header of that name that the request carries.
\<close>

definition header_ok :: "http_Request \<Rightarrow> string \<times> (string list \<Rightarrow> bool) \<Rightarrow> bool" where
  "header_ok r hm =
     (case map_of (Header r) (fst hm) of None \<Rightarrow> False | Some vs \<Rightarrow> snd hm vs)"

definition Matches :: "Expectation \<Rightarrow> http_Request \<Rightarrow> bool" where
  "Matches e r =
     ((httpMethod e = [] \<or> httpMethod e = Method r) \<and>
      (case urlPattern e of Exact u \<Rightarrow> u = URL r | Predicate p \<Rightarrow> p (URL r)) \<and>
      (case bodyMatcher e of None \<Rightarrow> True | Some p \<Rightarrow> p (Body r)) \<and>
      list_all (header_ok r) (headerMatchers e))"

text \<open>Modelled from the spec: an expectation has remaining allowed matches when
  \<open>timesMatched < timesExpected\<close>, or when it is unbounded.\<close>

definition eligible :: "Expectation \<Rightarrow> bool" where
  "eligible e = (case timesExpected e of None \<Rightarrow> True | Some n \<Rightarrow> timesMatched e < n)"

text \<open>Modelled from the spec: the scan of \<^verbatim>\<open>Requested\<close> in registration order, giving
  the position of the first expectation that matches and has matches left.\<close>

fun first_eligible :: "Expectation list \<Rightarrow> http_Request \<Rightarrow> nat option" where
  "first_eligible [] r = None"
| "first_eligible (e # es) r =
     (if Matches e r \<and> eligible e then Some 0 else map_option Suc (first_eligible es r))"

text \<open>Modelled from the spec: the synthetic "not found" response and the diagnostic
  recorded with it (method, URL and headers of the request, and the registered
  expectations).\<close>

definition not_found_Response :: Response where
  "not_found_Response =
     \<lparr>statusCode = StatusNotFound, headers = [], body = [], delay = None, parent = []\<rparr>"

definition render_pattern :: "url_pattern \<Rightarrow> string" where
  "render_pattern p = (case p of Exact u \<Rightarrow> u | Predicate q \<Rightarrow> ''<predicate>'')"

definition render_Expectation :: "Expectation \<Rightarrow> string" where
  "render_Expectation e = httpMethod e @ '' '' @ render_pattern (urlPattern e)"

definition render_header :: "string \<times> string list \<Rightarrow> string" where
  "render_header h = fst h @ '': '' @ concat (map (\<lambda>v. v @ '';'') (snd h))"

definition no_match_diagnostic :: "http_Request \<Rightarrow> Expectation list \<Rightarrow> string" where
  "no_match_diagnostic r es =
     ''no match found for '' @ Method r @ '' '' @ URL r
       @ '' headers ['' @ concat (map (\<lambda>h. render_header h @ '','') (Header r)) @ '']''
       @ '' registered ['' @ concat (map (\<lambda>e. render_Expectation e @ '','') es) @ '']''"

text \<open>Modelled from the spec: granting a request to the expectation at position \<open>i\<close>
  increments its \<open>timesMatched\<close> (section 4.2).\<close>

definition grant :: "Registry \<Rightarrow> nat \<Rightarrow> Registry" where
  "grant m i =
     m\<lparr>expectations :=
         (expectations m)[i := (expectations m ! i)
            \<lparr>timesMatched := Suc (timesMatched (expectations m ! i))\<rparr>]\<rparr>"

text \<open>Modelled from the spec: \<^verbatim>\<open>Requested\<close> of section 4.2. The selected expectation's
  count goes up by one and its response is returned; when none is selected, the "not
  found" response is returned and the diagnostic is recorded as a failure.\<close>

definition Requested :: "Registry \<Rightarrow> http_Request \<Rightarrow> Registry \<times> Response" where
  "Requested m r =
     (case first_eligible (expectations m) r of
        Some i \<Rightarrow> (grant m i, response (expectations m ! i))
      | None \<Rightarrow>
          (m\<lparr>failures := failures m @ [no_match_diagnostic r (expectations m)]\<rparr>,
           not_found_Response))"

text \<open>Modelled from the spec: \<^verbatim>\<open>On\<close> of section 4.2 appends an expectation with the
  given criteria, an empty response and the default repeat count of 1 (section 6), and
  returns its position as the handle. A body, when given, is matched byte for byte.\<close>

definition new_Expectation :: "string \<Rightarrow> string \<Rightarrow> string \<Rightarrow> Expectation" where
  "new_Expectation meth url bdy =
     \<lparr>httpMethod = meth, urlPattern = Exact url,
      bodyMatcher = (if bdy = [] then None else Some (\<lambda>b. b = bdy)),
      headerMatchers = [],
      response = \<lparr>statusCode = 0, headers = [], body = [], delay = None,
                  parent = meth @ '' '' @ url\<rparr>,
      timesExpected = Some 1, timesMatched = 0\<rparr>"

definition Registry_On :: "Registry \<Rightarrow> string \<Rightarrow> string \<Rightarrow> string \<Rightarrow> Registry \<times> nat" where
  "Registry_On m meth url bdy =
     (m\<lparr>expectations := expectations m @ [new_Expectation meth url bdy]\<rparr>,
      length (expectations m))"

text \<open>Modelled from the spec: the formatting of a failure message, each \<^verbatim>\<open>%s\<close> or
  \<^verbatim>\<open>%v\<close> replaced by the next argument, and \<^verbatim>\<open>fail\<close> of section 4.2, which records the
  message and returns.\<close>

fun Sprintf :: "string \<Rightarrow> string list \<Rightarrow> string" where
  "Sprintf [] args = []"
| "Sprintf (c # d # cs) (a # as) =
     (if c = CHR ''%'' \<and> (d = CHR ''s'' \<or> d = CHR ''v'')
      then a @ Sprintf cs as else c # Sprintf (d # cs) (a # as))"
| "Sprintf (c # cs) args = c # Sprintf cs args"

definition fail :: "Registry \<Rightarrow> string \<Rightarrow> string list \<Rightarrow> Registry" where
  "fail m format args = m\<lparr>failures := failures m @ [Sprintf format args]\<rparr>"

text \<open>Modelled from the spec: a registry starts with no expectation and no failure.\<close>

definition Registry_zero :: Registry where
  "Registry_zero = \<lparr>expectations = [], failures = []\<rparr>"

text \<open>
  Runs of the registry: the three operations of section 4.2 in any order, and the
  number of requests of a run that are granted to the expectation at position \<open>i\<close>.
\<close>

datatype registry_op =
    Op_On string string string
  | Op_Requested http_Request
  | Op_fail string "string list"

fun apply_op :: "registry_op \<Rightarrow> Registry \<Rightarrow> Registry" where
  "apply_op (Op_On meth url bdy) m = fst (Registry_On m meth url bdy)"
| "apply_op (Op_Requested r) m = fst (Requested m r)"
| "apply_op (Op_fail format args) m = fail m format args"

fun apply_ops :: "registry_op list \<Rightarrow> Registry \<Rightarrow> Registry" where
  "apply_ops [] m = m"
| "apply_ops (x # xs) m = apply_ops xs (apply_op x m)"

fun granted_here :: "nat \<Rightarrow> registry_op \<Rightarrow> Registry \<Rightarrow> nat" where
  "granted_here i (Op_Requested r) m =
     (if first_eligible (expectations m) r = Some i then 1 else 0)"
| "granted_here i x m = 0"

fun grants :: "nat \<Rightarrow> registry_op list \<Rightarrow> Registry \<Rightarrow> nat" where
  "grants i [] m = 0"
| "grants i (x # xs) m = granted_here i x m + grants i xs (apply_op x m)"

text \<open>Modelled from the spec: the invariant of section 3, \<open>timesMatched \<le> timesExpected\<close>
  unless unbounded.\<close>

definition within_bound :: "Expectation \<Rightarrow> bool" where
  "within_bound e = (case timesExpected e of None \<Rightarrow> True | Some n \<Rightarrow> timesMatched e \<le> n)"

text \<open>Modelled from the spec: the sink a response is written to records the status
  code of the first \<^verbatim>\<open>WriteHeader\<close>, the headers and the body; a closed sink accepts no
  further writes. The writer of section 4.3 writes the status code, then the headers,
  then the body, and returns an error (it does not panic) when the sink is closed.\<close>

record ResponseRecorder =
  Code :: int
  wroteHeader :: bool
  HeaderMap :: "(string \<times> string list) list"
  Body_written :: string
  closed :: bool

definition Recorder_WriteHeader :: "ResponseRecorder \<Rightarrow> int \<Rightarrow> ResponseRecorder" where
  "Recorder_WriteHeader w code = (if wroteHeader w then w else w\<lparr>Code := code, wroteHeader := True\<rparr>)"

definition Write :: "Response \<Rightarrow> ResponseRecorder \<Rightarrow> http_Request \<Rightarrow> ResponseRecorder \<times> int \<times> error option" where
  "Write p w r =
     (if closed w then (w, 0, Some ''write: connection closed'')
      else ((Recorder_WriteHeader w (statusCode p))
              \<lparr>HeaderMap := headers p, Body_written := Body_written w @ body p\<rparr>,
            int (length (body p)), None))"

text \<open>The engine of the specification as an instance of the operations that
  server.go calls. A caller-supplied handler is here a panic value to raise, or none.\<close>

definition spec_ops :: "(Registry, Response, ResponseRecorder, panic_value option) ops" where
  "spec_ops =
     \<lparr>Mock_zero = Registry_zero,
      Mock_On = (\<lambda>m meth url bdy. case Registry_On m meth url bdy of (m', h) \<Rightarrow> (m', Inr h)),
      Mock_Requested = (\<lambda>m r. case Requested m r of (m', p) \<Rightarrow> (m', Inr p)),
      Mock_fail = (\<lambda>m format args. (fail m format args, Inr ())),
      Response_Write = (\<lambda>p w r. case Write p w r of (w', res) \<Rightarrow> (w', Inr res)),
      Response_parent_String = (\<lambda>p. Inr (parent p)),
      WriteHeader = Recorder_WriteHeader,
      HandlerFunc_call = (\<lambda>h w r \<sigma>. (case h of None \<Rightarrow> Inr () | Some rc \<Rightarrow> Inl rc, w, \<sigma>))\<rparr>"

section \<open>Concrete inputs\<close>

text \<open>
  The inputs at which the theorems below are instantiated: a \<^verbatim>\<open>GET /widgets\<close> request, a
  sink that accepts writes and one that is closed, the engine with a matcher that faults
  on every request, the state after one call of \<^verbatim>\<open>NewServer\<close> in a fresh process, that
  state with \<^verbatim>\<open>GET /widgets\<close> registered, and registries with one and with two
  expectations for \<^verbatim>\<open>GET /widgets\<close>.
\<close>

definition example_request :: http_Request where
  "example_request = \<lparr>Method = ''GET'', URL = ''/widgets'', Header = [], Body = []\<rparr>"

definition fresh_writer :: ResponseRecorder where
  "fresh_writer =
     \<lparr>Code = 200, wroteHeader = False, HeaderMap = [], Body_written = [], closed = False\<rparr>"

definition closed_writer :: ResponseRecorder where
  "closed_writer = fresh_writer\<lparr>closed := True\<rparr>"

definition faulty_ops :: "(Registry, Response, ResponseRecorder, panic_value option) ops" where
  "faulty_ops = spec_ops\<lparr>Mock_Requested := (\<lambda>m r. (m, Inl ''malformed matcher''))\<rparr>"

definition one_server ::
  "('m, 'p, 'w, 'h) ops \<Rightarrow> ('m, 'h) state" where
  "one_server ops = snd (NewServer ops (initial ops))"

definition widgets_state :: "(Registry, panic_value option) state" where
  "widgets_state = snd (On spec_ops 0 ''GET'' ''/widgets'' [] (one_server spec_ops))"

definition one_widget :: Registry where
  "one_widget = fst (Registry_On Registry_zero ''GET'' ''/widgets'' [])"

definition two_widgets :: Registry where
  "two_widgets = fst (Registry_On one_widget ''GET'' ''/widgets'' [])"

text \<open>
  What the client has been sent as status through a sink: nothing until the first
  \<^verbatim>\<open>WriteHeader\<close>, then the code of that call. A response writer of the standard library
  keeps the first status: \<open>first_WriteHeader_wins ops sent\<close> says so of the
  \<^verbatim>\<open>WriteHeader\<close> of \<open>ops\<close>, \<open>sent w\<close> being the status sent through the writer \<open>w\<close>.
\<close>

definition Recorder_sent :: "ResponseRecorder \<Rightarrow> int option" where
  "Recorder_sent w = (if wroteHeader w then Some (Code w) else None)"

definition first_WriteHeader_wins :: "('m, 'p, 'w, 'h) ops \<Rightarrow> ('w \<Rightarrow> int option) \<Rightarrow> bool" where
  "first_WriteHeader_wins ops sent =
     (\<forall>w code. sent (WriteHeader ops w code)
        = (case sent w of None \<Rightarrow> Some code | Some c \<Rightarrow> Some c))"

text \<open>
  The engine with a fault at each of the other calls of the handler's body: a
  \<^verbatim>\<open>Write\<close> that sends status 200 and part of a body and then panics, a response whose
  \<^verbatim>\<open>parent.String()\<close> panics, and a \<^verbatim>\<open>fail\<close> that panics with the formatted message.
\<close>

definition partial_write_ops :: "(Registry, Response, ResponseRecorder, panic_value option) ops" where
  "partial_write_ops =
     spec_ops\<lparr>Response_Write :=
       (\<lambda>p w r. ((Recorder_WriteHeader w 200)\<lparr>Body_written := Body_written w @ ''partial''\<rparr>,
                 Inl ''fault while writing''))\<rparr>"

definition nil_parent_ops :: "(Registry, Response, ResponseRecorder, panic_value option) ops" where
  "nil_parent_ops =
     spec_ops\<lparr>Response_parent_String := (\<lambda>p. Inl ''nil pointer dereference'')\<rparr>"

definition panicking_fail_ops :: "(Registry, Response, ResponseRecorder, panic_value option) ops" where
  "panicking_fail_ops =
     spec_ops\<lparr>Mock_fail := (\<lambda>m format args. (m, Inl (Sprintf format args)))\<rparr>"

section \<open>Unfolding the definitions at concrete inputs\<close>

lemmas srv_defs = one_server_def NewServer_def new_Mock_def new_Server_def set_Server_def
  httptest_NewServer_def initial_def IsRecoverable_def NotRecoverable_def

lemmas body_defs = makeHandler_body_def call_Requested_def call_fail_def faulty_ops_def
  spec_ops_def example_request_def fresh_writer_def closed_writer_def Recorder_WriteHeader_def
  StatusNotFound_def

lemmas reg_defs = widgets_state_def On_def call_On_def Registry_On_def new_Expectation_def
  Registry_zero_def Requested_def grant_def Matches_def eligible_def Write_def fail_def
  write_failed_format_def one_widget_def two_widgets_def

lemmas fault_defs = partial_write_ops_def nil_parent_ops_def panicking_fail_ops_def
  Recorder_sent_def first_WriteHeader_wins_def

section \<open>What the handler leaves alone\<close>

lemma makeHandler_body_frame:
  "makeHandler_body ops s w r \<sigma> = (res, w1, \<sigma>1) \<Longrightarrow>
     servers \<sigma>1 = servers \<sigma> \<and> next_Server \<sigma>1 = next_Server \<sigma> \<and> next_Mock \<sigma>1 = next_Mock \<sigma>
       \<and> stdout \<sigma>1 = stdout \<sigma> \<and> (\<forall>a. a \<noteq> Mock (servers \<sigma> s) \<longrightarrow> mocks \<sigma>1 a = mocks \<sigma> a)"
  by (auto simp: makeHandler_body_def call_Requested_def call_fail_def
      split: prod.splits sum.splits option.splits)

lemma makeHandler_frame:
  "makeHandler ops s w r \<sigma> = (res, w1, \<sigma>1) \<Longrightarrow>
     servers \<sigma>1 = servers \<sigma> \<and> next_Server \<sigma>1 = next_Server \<sigma> \<and> next_Mock \<sigma>1 = next_Mock \<sigma>
       \<and> (\<forall>a. a \<noteq> Mock (servers \<sigma> s) \<longrightarrow> mocks \<sigma>1 a = mocks \<sigma> a)"
  unfolding makeHandler_def
  by (auto split: prod.splits sum.splits if_splits dest!: makeHandler_body_frame)


section \<open>The panic policy of the default handler\<close>

text \<open>
  The body panics at one of its four calls: in \<^verbatim>\<open>Requested\<close>; in \<^verbatim>\<open>Write\<close>; after a failed
  write, in \<^verbatim>\<open>response.parent.String()\<close>; or in \<^verbatim>\<open>fail\<close>. In each case the body ends
  with that panic, the writer as the last call on it left it (\<open>wx\<close>) and the
  \<^verbatim>\<open>Mock\<close> as the last call on it left it (\<open>mx\<close>).
\<close>

lemma makeHandler_body_fault:
  assumes "Mock_Requested ops (mocks \<sigma> (Mock (servers \<sigma> s))) r = (mx, Inl rc) \<and> wx = w
     \<or> Mock_Requested ops (mocks \<sigma> (Mock (servers \<sigma> s))) r = (mx, Inr p)
         \<and> Response_Write ops p w r = (wx, Inl rc)
     \<or> Mock_Requested ops (mocks \<sigma> (Mock (servers \<sigma> s))) r = (mx, Inr p)
         \<and> Response_Write ops p w r = (wx, Inr (n, Some err))
         \<and> Response_parent_String ops p = Inl rc
     \<or> Mock_Requested ops (mocks \<sigma> (Mock (servers \<sigma> s))) r = (m1, Inr p)
         \<and> Response_Write ops p w r = (wx, Inr (n, Some err))
         \<and> Response_parent_String ops p = Inr str
         \<and> Mock_fail ops m1 write_failed_format [str, err] = (mx, Inl rc)"
  shows "makeHandler_body ops s w r \<sigma> =
           (Inl rc, wx, \<sigma>\<lparr>mocks := (mocks \<sigma>)(Mock (servers \<sigma> s) := mx)\<rparr>)"
  using assms
  by (elim disjE conjE)
     (simp_all add: makeHandler_body_def call_Requested_def call_fail_def)


text \<open>Facts about the concrete inputs, shared by the instances below.\<close>

lemma widgets_state_facts:
  "ignorePanic (servers widgets_state 0) = False"
  "ignorePanic (servers (snd (NotRecoverable 0 widgets_state)) 0) = True"
  "Mock (servers widgets_state 0) = 0" "stdout widgets_state = []"
  "Mock (servers (snd (NotRecoverable 0 widgets_state)) 0) = 0"
  "stdout (snd (NotRecoverable 0 widgets_state)) = []"
  "mocks (snd (NotRecoverable 0 widgets_state)) = mocks widgets_state"
  "mocks widgets_state 0 = one_widget"
  by (simp_all add: srv_defs reg_defs spec_ops_def split: prod.splits)

lemma widgets_state_policy:
  "IsRecoverable 0 widgets_state" "\<not> IsRecoverable 0 (snd (NotRecoverable 0 widgets_state))"
  by (simp_all add: IsRecoverable_def widgets_state_facts)


lemma one_widget_Requested:
  "Requested one_widget example_request
     = (grant one_widget 0, response (new_Expectation ''GET'' ''/widgets'' []))"
  by (simp add: reg_defs example_request_def)

lemma closed_Write:
  "Write p closed_writer r = (closed_writer, 0, Some ''write: connection closed'')"
  by (simp add: Write_def closed_writer_def)

lemma widgets_parent:
  "parent (response (new_Expectation ''GET'' ''/widgets'' [])) = ''GET /widgets''"
  by (simp add: new_Expectation_def)




text \<open>
  Claim C2. On a server in the NotRecoverable state, a panic at any of the four calls of
  the body leaves the handler as a panic with the same value; the writer is as the body
  left it, so the handler has written no 404, and nothing has been printed.
\<close>

theorem not_recoverable_fault_propagates:
  assumes "\<not> IsRecoverable s \<sigma>"
    and "Mock_Requested ops (mocks \<sigma> (Mock (servers \<sigma> s))) r = (mx, Inl rc) \<and> wx = w
     \<or> Mock_Requested ops (mocks \<sigma> (Mock (servers \<sigma> s))) r = (mx, Inr p)
         \<and> Response_Write ops p w r = (wx, Inl rc)
     \<or> Mock_Requested ops (mocks \<sigma> (Mock (servers \<sigma> s))) r = (mx, Inr p)
         \<and> Response_Write ops p w r = (wx, Inr (n, Some err))
         \<and> Response_parent_String ops p = Inl rc
     \<or> Mock_Requested ops (mocks \<sigma> (Mock (servers \<sigma> s))) r = (m1, Inr p)
         \<and> Response_Write ops p w r = (wx, Inr (n, Some err))
         \<and> Response_parent_String ops p = Inr str
         \<and> Mock_fail ops m1 write_failed_format [str, err] = (mx, Inl rc)"
  shows "makeHandler ops s w r \<sigma> =
           (Inl rc, wx, \<sigma>\<lparr>mocks := (mocks \<sigma>)(Mock (servers \<sigma> s) := mx)\<rparr>)
         \<and> stdout (snd (snd (makeHandler ops s w r \<sigma>))) = stdout \<sigma>"
proof -
  let ?\<sigma>f = "\<sigma>\<lparr>mocks := (mocks \<sigma>)(Mock (servers \<sigma> s) := mx)\<rparr>"
  have b: "makeHandler_body ops s w r \<sigma> = (Inl rc, wx, ?\<sigma>f)"
    using assms(2) by (rule makeHandler_body_fault)
  have "\<not> IsRecoverable s ?\<sigma>f" using assms(1) by (simp add: IsRecoverable_def)
  with b have eq: "makeHandler ops s w r \<sigma> = (Inl rc, wx, ?\<sigma>f)"
    by (simp add: makeHandler_def)
  then show ?thesis by simp
qed

text \<open>At the same server after \<^verbatim>\<open>NotRecoverable()\<close>, with a fault at each of the four
  calls: the fault leaves the handler, the handler has sent nothing (the sink is
  untouched, or holds only the 200 that \<^verbatim>\<open>Write\<close> sent), and standard output is empty.\<close>

theorem not_recoverable_fault_propagates_witness:
  "\<not> IsRecoverable 0 (snd (NotRecoverable 0 widgets_state))
   \<and> makeHandler faulty_ops 0 fresh_writer example_request (snd (NotRecoverable 0 widgets_state))
       = (Inl ''malformed matcher'', fresh_writer,
          (snd (NotRecoverable 0 widgets_state))
            \<lparr>mocks := (mocks (snd (NotRecoverable 0 widgets_state)))(0 := one_widget)\<rparr>)
   \<and> stdout (snd (snd (makeHandler faulty_ops 0 fresh_writer example_request
          (snd (NotRecoverable 0 widgets_state))))) = []
   \<and> fst (makeHandler partial_write_ops 0 fresh_writer example_request
          (snd (NotRecoverable 0 widgets_state))) = Inl ''fault while writing''
   \<and> Recorder_sent (fst (snd (makeHandler partial_write_ops 0 fresh_writer example_request
          (snd (NotRecoverable 0 widgets_state))))) = Some 200
   \<and> stdout (snd (snd (makeHandler partial_write_ops 0 fresh_writer example_request
          (snd (NotRecoverable 0 widgets_state))))) = []
   \<and> fst (makeHandler nil_parent_ops 0 closed_writer example_request
          (snd (NotRecoverable 0 widgets_state))) = Inl ''nil pointer dereference''
   \<and> fst (snd (makeHandler nil_parent_ops 0 closed_writer example_request
          (snd (NotRecoverable 0 widgets_state)))) = closed_writer
   \<and> stdout (snd (snd (makeHandler nil_parent_ops 0 closed_writer example_request
          (snd (NotRecoverable 0 widgets_state))))) = []
   \<and> fst (makeHandler panicking_fail_ops 0 closed_writer example_request
          (snd (NotRecoverable 0 widgets_state)))
       = Inl (''failed to write response for request:'' @ [CHR 0x0A] @ ''GET /widgets''
              @ [CHR 0x0A] @ ''with error: write: connection closed'')
   \<and> fst (snd (makeHandler panicking_fail_ops 0 closed_writer example_request
          (snd (NotRecoverable 0 widgets_state)))) = closed_writer
   \<and> stdout (snd (snd (makeHandler panicking_fail_ops 0 closed_writer example_request
          (snd (NotRecoverable 0 widgets_state))))) = []"
proof -
  let ?\<sigma> = "snd (NotRecoverable 0 widgets_state)"
  let ?m = "mocks ?\<sigma> (Mock (servers ?\<sigma> 0))"
  let ?p = "response (new_Expectation ''GET'' ''/widgets'' [])"
  let ?e = "''write: connection closed''"
  note nrec = widgets_state_policy(2)
  have m: "?m = one_widget" by (simp add: widgets_state_facts)
  have m0: "Mock (servers ?\<sigma> 0) = 0" by (simp add: widgets_state_facts)
  have so: "stdout ?\<sigma> = []" by (simp add: widgets_state_facts)
  have a1: "Mock_Requested faulty_ops ?m example_request = (one_widget, Inl ''malformed matcher'')"
    by (simp add: m faulty_ops_def)
  note ta = not_recoverable_fault_propagates[OF nrec disjI1[OF conjI[OF a1 refl]]]
  have ca1: "makeHandler faulty_ops 0 fresh_writer example_request ?\<sigma>
      = (Inl ''malformed matcher'', fresh_writer, ?\<sigma>\<lparr>mocks := (mocks ?\<sigma>)(0 := one_widget)\<rparr>)"
    using ta[THEN conjunct1] by (simp add: m0)
  have ca2: "stdout (snd (snd (makeHandler faulty_ops 0 fresh_writer example_request ?\<sigma>))) = []"
    using ta[THEN conjunct2] by (simp add: so)
  have b1: "Mock_Requested partial_write_ops ?m example_request = (grant one_widget 0, Inr ?p)"
    by (simp add: m partial_write_ops_def spec_ops_def one_widget_Requested)
  have b2: "Response_Write partial_write_ops ?p fresh_writer example_request
      = ((Recorder_WriteHeader fresh_writer 200)\<lparr>Body_written := Body_written fresh_writer @ ''partial''\<rparr>,
         Inl ''fault while writing'')"
    by (simp add: partial_write_ops_def spec_ops_def)
  note tb = not_recoverable_fault_propagates[OF nrec disjI2[OF disjI1[OF conjI[OF b1 b2]]]]
  have cb1: "fst (makeHandler partial_write_ops 0 fresh_writer example_request ?\<sigma>)
      = Inl ''fault while writing''"
    by (simp add: tb[THEN conjunct1])
  have cb2: "Recorder_sent (fst (snd (makeHandler partial_write_ops 0 fresh_writer example_request
      ?\<sigma>))) = Some 200"
    unfolding tb[THEN conjunct1]
    by (simp add: Recorder_sent_def Recorder_WriteHeader_def fresh_writer_def)
  have cb3: "stdout (snd (snd (makeHandler partial_write_ops 0 fresh_writer example_request ?\<sigma>)))
      = []"
    using tb[THEN conjunct2] by (simp add: so)
  have c1: "Mock_Requested nil_parent_ops ?m example_request = (grant one_widget 0, Inr ?p)"
    by (simp add: m nil_parent_ops_def spec_ops_def one_widget_Requested)
  have c2: "Response_Write nil_parent_ops ?p closed_writer example_request
      = (closed_writer, Inr (0, Some ?e))"
    by (simp add: nil_parent_ops_def spec_ops_def closed_Write)
  have c3: "Response_parent_String nil_parent_ops ?p = Inl ''nil pointer dereference''"
    by (simp add: nil_parent_ops_def)
  note tc = not_recoverable_fault_propagates[OF nrec
      disjI2[OF disjI2[OF disjI1[OF conjI[OF c1 conjI[OF c2 c3]]]]]]
  have cc1: "fst (makeHandler nil_parent_ops 0 closed_writer example_request ?\<sigma>)
      = Inl ''nil pointer dereference''"
    by (simp add: tc[THEN conjunct1])
  have cc2: "fst (snd (makeHandler nil_parent_ops 0 closed_writer example_request ?\<sigma>))
      = closed_writer"
    by (simp add: tc[THEN conjunct1])
  have cc3: "stdout (snd (snd (makeHandler nil_parent_ops 0 closed_writer example_request ?\<sigma>)))
      = []"
    using tc[THEN conjunct2] by (simp add: so)
  have d1: "Mock_Requested panicking_fail_ops ?m example_request = (grant one_widget 0, Inr ?p)"
    by (simp add: m panicking_fail_ops_def spec_ops_def one_widget_Requested)
  have d2: "Response_Write panicking_fail_ops ?p closed_writer example_request
      = (closed_writer, Inr (0, Some ?e))"
    by (simp add: panicking_fail_ops_def spec_ops_def closed_Write)
  have d3: "Response_parent_String panicking_fail_ops ?p = Inr ''GET /widgets''"
    by (simp add: panicking_fail_ops_def spec_ops_def widgets_parent)
  have d4: "Mock_fail panicking_fail_ops (grant one_widget 0) write_failed_format
      [''GET /widgets'', ?e]
      = (grant one_widget 0, Inl (Sprintf write_failed_format [''GET /widgets'', ?e]))"
    by (simp add: panicking_fail_ops_def)
  note td = not_recoverable_fault_propagates[OF nrec
      disjI2[OF disjI2[OF disjI2[OF conjI[OF d1 conjI[OF d2 conjI[OF d3 d4]]]]]]]
  have cd1: "fst (makeHandler panicking_fail_ops 0 closed_writer example_request ?\<sigma>)
      = Inl (''failed to write response for request:'' @ [CHR 0x0A] @ ''GET /widgets''
              @ [CHR 0x0A] @ ''with error: write: connection closed'')"
    by (simp add: td[THEN conjunct1] write_failed_format_def)
  have cd2: "fst (snd (makeHandler panicking_fail_ops 0 closed_writer example_request ?\<sigma>))
      = closed_writer"
    by (simp add: td[THEN conjunct1])
  have cd3: "stdout (snd (snd (makeHandler panicking_fail_ops 0 closed_writer example_request
      ?\<sigma>))) = []"
    using td[THEN conjunct2] by (simp add: so)
  show ?thesis by (intro conjI nrec ca1 ca2 cb1 cb2 cb3 cc1 cc2 cc3 cd1 cd2 cd3)
qed

section \<open>Write errors\<close>




section \<open>Registration through the server\<close>

text \<open>
  Claim C6. \<^verbatim>\<open>s.On(method, URL, body)\<close> is \<^verbatim>\<open>s.Mock.On(method, URL, body)\<close>: its result
  is what \<^verbatim>\<open>(*Mock).On\<close> returns on the server's \<^verbatim>\<open>Mock\<close> (the handle, or the panic),
  and the state afterwards differs only in that \<^verbatim>\<open>Mock\<close>, which is the one
  \<^verbatim>\<open>(*Mock).On\<close> leaves.
\<close>

theorem On_passthrough:
  "On ops s meth url bdy \<sigma> = call_On ops (Mock (servers \<sigma> s)) meth url bdy \<sigma>
   \<and> fst (On ops s meth url bdy \<sigma>)
       = snd (Mock_On ops (mocks \<sigma> (Mock (servers \<sigma> s))) meth url bdy)
   \<and> snd (On ops s meth url bdy \<sigma>)
       = \<sigma>\<lparr>mocks := (mocks \<sigma>)(Mock (servers \<sigma> s) :=
              fst (Mock_On ops (mocks \<sigma> (Mock (servers \<sigma> s))) meth url bdy))\<rparr>"
  by (simp add: On_def call_On_def split: prod.splits)

section \<open>Constructors and sequences of operations\<close>

lemma NewServer_frame:
  "NewServer ops \<sigma> = (s, \<sigma>') \<Longrightarrow>
     s = next_Server \<sigma> \<and> next_Server \<sigma>' = Suc (next_Server \<sigma>) \<and> next_Mock \<sigma>' = Suc (next_Mock \<sigma>)
     \<and> Mock (servers \<sigma>' s) = next_Mock \<sigma> \<and> \<not> ignorePanic (servers \<sigma>' s)
     \<and> (\<forall>a. a \<noteq> s \<longrightarrow> servers \<sigma>' a = servers \<sigma> a)
     \<and> (\<forall>a. a \<noteq> next_Mock \<sigma> \<longrightarrow> mocks \<sigma>' a = mocks \<sigma> a)
     \<and> mocks \<sigma>' (next_Mock \<sigma>) = Mock_zero ops \<and> stdout \<sigma>' = stdout \<sigma>"
  by (auto simp: NewServer_def new_Mock_def new_Server_def set_Server_def)

lemma NewServerWithConfig_frame:
  "NewServerWithConfig ops cfg \<sigma> = (s, \<sigma>') \<Longrightarrow>
     s = next_Server \<sigma> \<and> next_Server \<sigma>' = Suc (next_Server \<sigma>) \<and> next_Mock \<sigma>' = Suc (next_Mock \<sigma>)
     \<and> Mock (servers \<sigma>' s) = next_Mock \<sigma> \<and> \<not> ignorePanic (servers \<sigma>' s)
     \<and> (\<forall>a. a \<noteq> s \<longrightarrow> servers \<sigma>' a = servers \<sigma> a)
     \<and> (\<forall>a. a \<noteq> next_Mock \<sigma> \<longrightarrow> mocks \<sigma>' a = mocks \<sigma> a)
     \<and> mocks \<sigma>' (next_Mock \<sigma>) = Mock_zero ops \<and> stdout \<sigma>' = stdout \<sigma>"
  by (auto simp: NewServerWithConfig_def new_Mock_def new_Server_def set_Server_def Let_def
      split: if_splits)

lemma On_frame:
  "On ops s meth url bdy \<sigma> = (res, \<sigma>') \<Longrightarrow>
     servers \<sigma>' = servers \<sigma> \<and> next_Server \<sigma>' = next_Server \<sigma> \<and> next_Mock \<sigma>' = next_Mock \<sigma>
     \<and> (\<forall>a. a \<noteq> Mock (servers \<sigma> s) \<longrightarrow> mocks \<sigma>' a = mocks \<sigma> a)"
  by (auto simp: On_def call_On_def split: prod.splits)

lemma NotRecoverable_frame:
  "NotRecoverable s \<sigma> = (s', \<sigma>') \<Longrightarrow>
     s' = s \<and> mocks \<sigma>' = mocks \<sigma> \<and> next_Server \<sigma>' = next_Server \<sigma> \<and> next_Mock \<sigma>' = next_Mock \<sigma>
     \<and> ignorePanic (servers \<sigma>' s) \<and> Mock (servers \<sigma>' s) = Mock (servers \<sigma> s)
     \<and> Server (servers \<sigma>' s) = Server (servers \<sigma> s)
     \<and> (\<forall>a. a \<noteq> s \<longrightarrow> servers \<sigma>' a = servers \<sigma> a)"
  by (auto simp: NotRecoverable_def)


lemma exec_next_Server: "next_Server \<sigma> \<le> next_Server (exec ops c \<sigma>)"
proof (cases c)
  case Call_NewServer
  then show ?thesis using NewServer_frame[of ops \<sigma>] by (cases "NewServer ops \<sigma>") simp
next
  case (Call_NewServerWithConfig cfg)
  then show ?thesis using NewServerWithConfig_frame[of ops cfg \<sigma>]
    by (cases "NewServerWithConfig ops cfg \<sigma>") simp
next
  case (Call_NotRecoverable s)
  then show ?thesis by (simp add: NotRecoverable_def)
next
  case (Call_IsRecoverable s)
  then show ?thesis by simp
next
  case (Call_On s meth url bdy)
  then show ?thesis using On_frame[of ops s meth url bdy \<sigma>]
    by (cases "On ops s meth url bdy \<sigma>") simp
next
  case (Call_handler s w r)
  then show ?thesis using makeHandler_frame[of ops s w r \<sigma>]
    by (cases "makeHandler ops s w r \<sigma>") simp
qed

lemma exec_ignorePanic:
  assumes "s < next_Server \<sigma>" and "c \<noteq> Call_NotRecoverable s"
  shows "ignorePanic (servers (exec ops c \<sigma>) s) = ignorePanic (servers \<sigma> s)"
proof (cases c)
  case Call_NewServer
  then show ?thesis using NewServer_frame[of ops \<sigma>] assms(1) by (cases "NewServer ops \<sigma>") simp
next
  case (Call_NewServerWithConfig cfg)
  then show ?thesis using NewServerWithConfig_frame[of ops cfg \<sigma>] assms(1)
    by (cases "NewServerWithConfig ops cfg \<sigma>") simp
next
  case (Call_NotRecoverable s')
  then show ?thesis using assms(2) by (simp add: NotRecoverable_def)
next
  case (Call_IsRecoverable s')
  then show ?thesis by simp
next
  case (Call_On s' meth url bdy)
  then show ?thesis using On_frame[of ops s' meth url bdy \<sigma>]
    by (cases "On ops s' meth url bdy \<sigma>") simp
next
  case (Call_handler s' w r)
  then show ?thesis using makeHandler_frame[of ops s' w r \<sigma>]
    by (cases "makeHandler ops s' w r \<sigma>") simp
qed

lemma exec_ignorePanic_stays:
  assumes "s < next_Server \<sigma>" and "ignorePanic (servers \<sigma> s)"
  shows "ignorePanic (servers (exec ops c \<sigma>) s)"
proof (cases "c = Call_NotRecoverable s")
  case True
  then show ?thesis by (simp add: NotRecoverable_def)
next
  case False
  then show ?thesis using exec_ignorePanic[OF assms(1)] assms(2) by simp
qed

lemma execs_ignorePanic_stays:
  "s < next_Server \<sigma> \<Longrightarrow> ignorePanic (servers \<sigma> s) \<Longrightarrow> ignorePanic (servers (execs ops cs \<sigma>) s)"
proof (induction cs arbitrary: \<sigma>)
  case Nil
  then show ?case by simp
next
  case (Cons c cs)
  have "s < next_Server (exec ops c \<sigma>)"
    using Cons.prems(1) exec_next_Server[of \<sigma> ops c] by simp
  moreover have "ignorePanic (servers (exec ops c \<sigma>) s)"
    using Cons.prems by (rule exec_ignorePanic_stays)
  ultimately show ?case using Cons.IH by simp
qed

lemma execs_ignorePanic:
  "s < next_Server \<sigma> \<Longrightarrow> Call_NotRecoverable s \<notin> set cs \<Longrightarrow>
     ignorePanic (servers (execs ops cs \<sigma>) s) = ignorePanic (servers \<sigma> s)"
proof (induction cs arbitrary: \<sigma>)
  case Nil
  then show ?case by simp
next
  case (Cons c cs)
  have lt: "s < next_Server (exec ops c \<sigma>)"
    using Cons.prems(1) exec_next_Server[of \<sigma> ops c] by simp
  have "c \<noteq> Call_NotRecoverable s" using Cons.prems(2) by auto
  then have "ignorePanic (servers (exec ops c \<sigma>) s) = ignorePanic (servers \<sigma> s)"
    using Cons.prems(1) by (simp add: exec_ignorePanic)
  moreover have "Call_NotRecoverable s \<notin> set cs" using Cons.prems(2) by simp
  ultimately show ?case using Cons.IH[OF lt] by simp
qed

text \<open>
  Claim C3. A server returned by \<^verbatim>\<open>NewServer\<close>, or by \<^verbatim>\<open>NewServerWithConfig\<close> for any
  configuration, is recoverable, and stays recoverable through any sequence of package
  operations in which \<^verbatim>\<open>NotRecoverable\<close> is not called on it.
\<close>

theorem new_servers_recoverable:
  assumes "NewServer ops \<sigma> = (s, \<sigma>') \<or> NewServerWithConfig ops cfg \<sigma> = (s, \<sigma>')"
    and "Call_NotRecoverable s \<notin> set cs"
  shows "IsRecoverable s \<sigma>' \<and> IsRecoverable s (execs ops cs \<sigma>')"
proof -
  from assms(1) have a: "s < next_Server \<sigma>'" and b: "\<not> ignorePanic (servers \<sigma>' s)"
    using NewServer_frame[of ops \<sigma> s \<sigma>'] NewServerWithConfig_frame[of ops cfg \<sigma> s \<sigma>']
    by auto
  from execs_ignorePanic[OF a assms(2)] b show ?thesis
    by (simp add: IsRecoverable_def)
qed

text \<open>At the first server of a fresh process, through a registration, a request, a
  query of the policy and the construction of another server.\<close>

theorem new_servers_recoverable_witness:
  "NewServer spec_ops (initial spec_ops) = (0, one_server spec_ops)
   \<and> Call_NotRecoverable 0 \<notin> set [Call_On 0 ''GET'' ''/widgets'' [],
         Call_handler 0 fresh_writer example_request, Call_IsRecoverable 0, Call_NewServer]
   \<and> IsRecoverable 0 (one_server spec_ops)
   \<and> IsRecoverable 0 (execs spec_ops [Call_On 0 ''GET'' ''/widgets'' [],
         Call_handler 0 fresh_writer example_request, Call_IsRecoverable 0, Call_NewServer]
         (one_server spec_ops))"
proof -
  have h1: "NewServer spec_ops (initial spec_ops) = (0, one_server spec_ops)"
    by (simp add: prod_eq_iff one_server_def) (simp add: srv_defs)
  have h2: "Call_NotRecoverable 0 \<notin> set [Call_On 0 ''GET'' ''/widgets'' [],
         Call_handler 0 fresh_writer example_request, Call_IsRecoverable 0, Call_NewServer]"
    by simp
  note t = new_servers_recoverable[OF disjI1[OF h1] h2]
  show ?thesis by (intro conjI h1 h2 t[THEN conjunct1] t[THEN conjunct2])
qed

text \<open>
  Claim C4. Once \<^verbatim>\<open>NotRecoverable\<close> has been called on a constructed server,
  \<^verbatim>\<open>IsRecoverable\<close> is false on it, and stays false through every sequence of package
  operations (constructors, \<^verbatim>\<open>NotRecoverable\<close>, \<^verbatim>\<open>IsRecoverable\<close>, \<^verbatim>\<open>On\<close>, the dispatch
  handler, on this or any other server).
\<close>

theorem NotRecoverable_irreversible:
  assumes "s < next_Server \<sigma>"
  shows "\<not> IsRecoverable s (snd (NotRecoverable s \<sigma>))
         \<and> \<not> IsRecoverable s (execs ops cs (snd (NotRecoverable s \<sigma>)))"
proof -
  have a: "s < next_Server (snd (NotRecoverable s \<sigma>))"
    using assms by (simp add: NotRecoverable_def)
  have b: "ignorePanic (servers (snd (NotRecoverable s \<sigma>)) s)"
    by (simp add: NotRecoverable_def)
  from execs_ignorePanic_stays[OF a b] b show ?thesis
    by (simp add: IsRecoverable_def)
qed

text \<open>At the first server of a fresh process, through a request, a registration, the
  construction of another server and a second \<^verbatim>\<open>NotRecoverable()\<close>.\<close>

theorem NotRecoverable_irreversible_witness:
  "0 < next_Server (one_server spec_ops)
   \<and> \<not> IsRecoverable 0 (snd (NotRecoverable 0 (one_server spec_ops)))
   \<and> \<not> IsRecoverable 0 (execs spec_ops [Call_handler 0 fresh_writer example_request,
         Call_On 0 ''GET'' ''/widgets'' [], Call_NewServer, Call_NotRecoverable 0]
         (snd (NotRecoverable 0 (one_server spec_ops))))"
proof -
  have h1: "0 < next_Server (one_server spec_ops)" by (simp add: srv_defs)
  note t = NotRecoverable_irreversible[OF h1, of spec_ops
      "[Call_handler 0 fresh_writer example_request,
         Call_On 0 ''GET'' ''/widgets'' [], Call_NewServer, Call_NotRecoverable 0]"]
  show ?thesis by (intro conjI h1 t[THEN conjunct1] t[THEN conjunct2])
qed

text \<open>
  Claim C10. \<^verbatim>\<open>NewServerWithConfig\<close> with a non-nil \<^verbatim>\<open>cfg.Handler\<close> installs exactly
  that handler: serving a request is running the handler, whatever the state (so
  whatever \<^verbatim>\<open>IsRecoverable\<close> says, a panic of the handler is the outcome) and whatever
  \<^verbatim>\<open>Requested\<close>, \<^verbatim>\<open>fail\<close> and \<^verbatim>\<open>Write\<close> would do. With a nil \<^verbatim>\<open>cfg.Handler\<close> the
  handler of \<^verbatim>\<open>makeHandler(s)\<close> is installed. In both cases the server is plain or TLS
  as \<^verbatim>\<open>cfg.TLS\<close> says.
\<close>

theorem custom_handler_unwrapped:
  assumes "NewServerWithConfig ops cfg \<sigma> = (s, \<sigma>')"
  shows "case Handler cfg of
           Some h \<Rightarrow>
             Server (servers \<sigma>' s) = Some \<lparr>tls = TLS cfg, Config_Handler = Custom h\<rparr>
             \<and> (\<forall>f g k w r \<tau>.
                  ServeHTTP (ops\<lparr>Mock_Requested := f, Mock_fail := g, Response_Write := k\<rparr>)
                    \<lparr>tls = TLS cfg, Config_Handler = Custom h\<rparr> w r \<tau>
                  = HandlerFunc_call ops h w r \<tau>)
         | None \<Rightarrow>
             Server (servers \<sigma>' s) = Some \<lparr>tls = TLS cfg, Config_Handler = Dispatch s\<rparr>
             \<and> (\<forall>w r \<tau>. ServeHTTP ops \<lparr>tls = TLS cfg, Config_Handler = Dispatch s\<rparr> w r \<tau>
                  = makeHandler ops s w r \<tau>)"
  using assms
  by (auto simp: NewServerWithConfig_def new_Mock_def new_Server_def set_Server_def
      httptest_NewServer_def httptest_NewTLSServer_def ServeHTTP_def Let_def
      split: option.splits if_splits)

text \<open>At a TLS configuration whose handler panics with \<^verbatim>\<open>boom\<close>: the server is
  recoverable, and the panic is the outcome of serving a request.\<close>

theorem custom_handler_unwrapped_witness:
  "fst (NewServerWithConfig spec_ops \<lparr>TLS = True, Handler = Some (Some ''boom'')\<rparr>
          (initial spec_ops)) = 0
   \<and> IsRecoverable 0
        (snd (NewServerWithConfig spec_ops \<lparr>TLS = True, Handler = Some (Some ''boom'')\<rparr>
          (initial spec_ops)))
   \<and> Server (servers
        (snd (NewServerWithConfig spec_ops \<lparr>TLS = True, Handler = Some (Some ''boom'')\<rparr>
          (initial spec_ops))) 0)
       = Some \<lparr>tls = True, Config_Handler = Custom (Some ''boom'')\<rparr>
   \<and> ServeHTTP spec_ops \<lparr>tls = True, Config_Handler = Custom (Some ''boom'')\<rparr>
        fresh_writer example_request widgets_state
       = (Inl ''boom'', fresh_writer, widgets_state)"
proof -
  let ?cfg = "\<lparr>TLS = True, Handler = Some (Some ''boom'')\<rparr> :: panic_value option ServerConfig"
  let ?n = "NewServerWithConfig spec_ops ?cfg (initial spec_ops)"
  have f: "fst ?n = 0"
    by (simp add: NewServerWithConfig_def new_Mock_def new_Server_def initial_def Let_def)
  then have h: "?n = (0, snd ?n)" by (simp add: prod_eq_iff)
  have r: "IsRecoverable 0 (snd ?n)"
    by (simp add: NewServerWithConfig_def new_Mock_def new_Server_def set_Server_def
        initial_def Let_def IsRecoverable_def)
  note t = custom_handler_unwrapped[OF h, simplified]
  note t1 = t[THEN conjunct1]
  note t2 = t[THEN conjunct2, rule_format,
      where f = "Mock_Requested spec_ops" and g = "Mock_fail spec_ops"
        and k = "Response_Write spec_ops" and w = fresh_writer and r = example_request
        and \<tau> = widgets_state]
  have c: "HandlerFunc_call spec_ops (Some ''boom'') fresh_writer example_request widgets_state
      = (Inl ''boom'', fresh_writer, widgets_state)"
    by (simp add: spec_ops_def)
  have s: "ServeHTTP spec_ops \<lparr>tls = True, Config_Handler = Custom (Some ''boom'')\<rparr>
        fresh_writer example_request widgets_state
       = (Inl ''boom'', fresh_writer, widgets_state)"
    using t2 c by simp
  show ?thesis by (intro conjI f r t1 s)
qed

section \<open>Ownership of the Mock\<close>














section \<open>The scan of the registry\<close>

lemma first_eligible_Some:
  "first_eligible es r = Some i \<Longrightarrow>
     i < length es \<and> Matches (es ! i) r \<and> eligible (es ! i)
     \<and> (\<forall>k < i. \<not> (Matches (es ! k) r \<and> eligible (es ! k)))"
proof (induction es arbitrary: i)
  case Nil
  then show ?case by simp
next
  case (Cons e es)
  show ?case
  proof (cases "Matches e r \<and> eligible e")
    case True
    then show ?thesis using Cons.prems by simp
  next
    case False
    then obtain j where j: "first_eligible es r = Some j" "i = Suc j"
      using Cons.prems by auto
    note ih = Cons.IH[OF j(1)]
    have "\<not> (Matches ((e # es) ! k) r \<and> eligible ((e # es) ! k))" if "k < i" for k
    proof (cases k)
      case 0
      then show ?thesis using False by simp
    next
      case (Suc k')
      then have "k' < j" using that j(2) by simp
      then show ?thesis using ih Suc by simp
    qed
    then show ?thesis using ih j(2) by simp
  qed
qed

lemma first_eligible_None:
  "first_eligible es r = None \<longleftrightarrow> (\<forall>e \<in> set es. \<not> (Matches e r \<and> eligible e))"
  by (induction es) simp_all

lemma first_eligible_first:
  "i < length es \<Longrightarrow> Matches (es ! i) r \<Longrightarrow> eligible (es ! i) \<Longrightarrow>
     (\<And>k. k < i \<Longrightarrow> \<not> (Matches (es ! k) r \<and> eligible (es ! k))) \<Longrightarrow> first_eligible es r = Some i"
proof (induction es arbitrary: i)
  case Nil
  then show ?case by simp
next
  case (Cons e es)
  show ?case
  proof (cases i)
    case 0
    then show ?thesis using Cons.prems(2,3) by simp
  next
    case (Suc j)
    have e: "\<not> (Matches e r \<and> eligible e)" using Cons.prems(4)[of 0] Suc by simp
    have "\<not> (Matches (es ! k) r \<and> eligible (es ! k))" if "k < j" for k
      using Cons.prems(4)[of "Suc k"] Suc that by simp
    then have "first_eligible es r = Some j"
      using Cons.IH[of j] Cons.prems(1-3) Suc by simp
    then show ?thesis using e Suc by simp
  qed
qed

lemma Requested_granted:
  "first_eligible (expectations m) r = Some i \<Longrightarrow>
     Requested m r = (grant m i, response (expectations m ! i))"
  by (simp add: Requested_def)

lemma Requested_not_found:
  "first_eligible (expectations m) r = None \<Longrightarrow>
     Requested m r =
       (m\<lparr>failures := failures m @ [no_match_diagnostic r (expectations m)]\<rparr>, not_found_Response)"
  by (simp add: Requested_def)

lemma grant_nth:
  "i < length (expectations m) \<Longrightarrow>
     expectations (grant m k) ! i =
       (if i = k then (expectations m ! i)\<lparr>timesMatched := Suc (timesMatched (expectations m ! i))\<rparr>
        else expectations m ! i)"
  by (simp add: grant_def)

lemma grant_length: "length (expectations (grant m k)) = length (expectations m)"
  by (simp add: grant_def)

lemma apply_op_length: "length (expectations m) \<le> length (expectations (apply_op x m))"
proof (cases x)
  case (Op_On meth url bdy)
  then show ?thesis by (simp add: Registry_On_def)
next
  case (Op_Requested r)
  then show ?thesis
    by (cases "first_eligible (expectations m) r")
       (simp_all add: Requested_not_found Requested_granted grant_length)
next
  case (Op_fail format args)
  then show ?thesis by (simp add: fail_def)
qed

lemma apply_op_nth:
  assumes "i < length (expectations m)"
  shows "expectations (apply_op x m) ! i =
           (if granted_here i x m = 1
            then (expectations m ! i)\<lparr>timesMatched := Suc (timesMatched (expectations m ! i))\<rparr>
            else expectations m ! i)"
proof (cases x)
  case (Op_On meth url bdy)
  then show ?thesis using assms by (simp add: Registry_On_def nth_append)
next
  case (Op_Requested r)
  show ?thesis
  proof (cases "first_eligible (expectations m) r")
    case None
    then show ?thesis using Op_Requested by (simp add: Requested_not_found)
  next
    case (Some k)
    then show ?thesis using Op_Requested assms
      by (auto simp: Requested_granted grant_nth)
  qed
next
  case (Op_fail format args)
  then show ?thesis by (simp add: fail_def)
qed

lemma granted_here_eligible:
  "granted_here i x m = 1 \<Longrightarrow> eligible (expectations m ! i)"
proof (cases x)
  case (Op_Requested r)
  assume "granted_here i x m = 1"
  then have "first_eligible (expectations m) r = Some i"
    using Op_Requested by (simp split: if_splits)
  then show ?thesis by (simp add: first_eligible_Some)
qed simp_all

lemma granted_here_le: "granted_here i x m = 0 \<or> granted_here i x m = 1"
  by (cases x) simp_all

lemma apply_op_bounded:
  assumes i: "i < length (expectations m)"
    and n: "timesExpected (expectations m ! i) = Some N"
    and le: "timesMatched (expectations m ! i) \<le> N"
  shows "i < length (expectations (apply_op x m))
         \<and> timesExpected (expectations (apply_op x m) ! i) = Some N
         \<and> timesMatched (expectations (apply_op x m) ! i)
             = timesMatched (expectations m ! i) + granted_here i x m
         \<and> timesMatched (expectations (apply_op x m) ! i) \<le> N"
proof (cases "granted_here i x m = 1")
  case True
  then have "eligible (expectations m ! i)" by (rule granted_here_eligible)
  then have "timesMatched (expectations m ! i) < N" using n by (simp add: eligible_def)
  then show ?thesis
    using True i n apply_op_length[of m x] by (simp add: apply_op_nth)
next
  case False
  then have "granted_here i x m = 0" using granted_here_le[of i x m] by simp
  then show ?thesis
    using i n le apply_op_length[of m x] by (simp add: apply_op_nth)
qed

lemma apply_ops_bounded:
  "i < length (expectations m) \<Longrightarrow> timesExpected (expectations m ! i) = Some N \<Longrightarrow>
   timesMatched (expectations m ! i) \<le> N \<Longrightarrow>
     timesMatched (expectations (apply_ops xs m) ! i) = timesMatched (expectations m ! i) + grants i xs m
     \<and> timesMatched (expectations (apply_ops xs m) ! i) \<le> N"
proof (induction xs arbitrary: m)
  case Nil
  then show ?case by simp
next
  case (Cons x xs)
  note st = apply_op_bounded[OF Cons.prems, of x]
  from st have a: "i < length (expectations (apply_op x m))"
    and b: "timesExpected (expectations (apply_op x m) ! i) = Some N"
    and c: "timesMatched (expectations (apply_op x m) ! i) \<le> N"
    by simp_all
  from Cons.IH[OF a b c] st show ?case by simp
qed

lemma within_bound_grant:
  assumes "list_all within_bound (expectations m)"
    and "first_eligible (expectations m) r = Some k"
  shows "list_all within_bound (expectations (grant m k))"
proof -
  from first_eligible_Some[OF assms(2)]
  have k: "k < length (expectations m)" and el: "eligible (expectations m ! k)" by simp_all
  have wb: "within_bound ((expectations m ! k)\<lparr>timesMatched := Suc (timesMatched (expectations m ! k))\<rparr>)"
    using el by (auto simp: within_bound_def eligible_def split: option.splits)
  have "within_bound (expectations (grant m k) ! i)" if "i < length (expectations m)" for i
    using that wb assms(1) by (simp add: grant_nth list_all_length)
  then show ?thesis by (simp add: list_all_length grant_length)
qed

lemma apply_op_within_bound:
  assumes "list_all within_bound (expectations m)"
  shows "list_all within_bound (expectations (apply_op x m))"
proof (cases x)
  case (Op_On meth url bdy)
  then show ?thesis using assms
    by (simp add: Registry_On_def new_Expectation_def within_bound_def)
next
  case (Op_Requested r)
  show ?thesis
  proof (cases "first_eligible (expectations m) r")
    case None
    then show ?thesis using Op_Requested assms by (simp add: Requested_not_found)
  next
    case (Some k)
    then show ?thesis using Op_Requested within_bound_grant[OF assms Some]
      by (simp add: Requested_granted)
  qed
next
  case (Op_fail format args)
  then show ?thesis using assms by (simp add: fail_def)
qed

lemma apply_ops_within_bound:
  "list_all within_bound (expectations m) \<Longrightarrow> list_all within_bound (expectations (apply_ops xs m))"
  by (induction xs arbitrary: m) (simp_all add: apply_op_within_bound)

lemma exhausted_not_eligible:
  "timesExpected e = Some N \<Longrightarrow> timesMatched e = N \<Longrightarrow> \<not> eligible e"
  by (simp add: eligible_def)

text \<open>
  Claim C7. Let \<open>E1\<close> be registered before \<open>E2\<close> (positions \<open>i < j\<close>) and let a request
  match both. While \<open>E1\<close> has matches left the request is never granted to \<open>E2\<close>; when
  no earlier expectation takes it, it is granted to \<open>E1\<close>; once \<open>E1\<close> is exhausted, and
  \<open>E2\<close> has matches left and no other earlier expectation takes it, it is granted to
  \<open>E2\<close>.
\<close>

theorem first_registered_eligible_wins:
  assumes "i < j" and "j < length (expectations m)"
    and "Matches (expectations m ! i) r" and "Matches (expectations m ! j) r"
  shows "(eligible (expectations m ! i) \<longrightarrow> first_eligible (expectations m) r \<noteq> Some j)
       \<and> (eligible (expectations m ! i)
            \<and> (\<forall>k < i. \<not> (Matches (expectations m ! k) r \<and> eligible (expectations m ! k)))
          \<longrightarrow> Requested m r = (grant m i, response (expectations m ! i)))
       \<and> (\<not> eligible (expectations m ! i) \<and> eligible (expectations m ! j)
            \<and> (\<forall>k < j. k \<noteq> i \<longrightarrow> \<not> (Matches (expectations m ! k) r \<and> eligible (expectations m ! k)))
          \<longrightarrow> Requested m r = (grant m j, response (expectations m ! j)))"
proof (intro conjI impI)
  assume el: "eligible (expectations m ! i)"
  show "first_eligible (expectations m) r \<noteq> Some j"
  proof
    assume "first_eligible (expectations m) r = Some j"
    from first_eligible_Some[OF this] assms(1,3) el show False by blast
  qed
next
  assume a: "eligible (expectations m ! i)
      \<and> (\<forall>k < i. \<not> (Matches (expectations m ! k) r \<and> eligible (expectations m ! k)))"
  have "i < length (expectations m)" using assms(1,2) by simp
  then have "first_eligible (expectations m) r = Some i"
    using assms(3) a by (intro first_eligible_first) blast+
  then show "Requested m r = (grant m i, response (expectations m ! i))"
    by (rule Requested_granted)
next
  assume a: "\<not> eligible (expectations m ! i) \<and> eligible (expectations m ! j)
      \<and> (\<forall>k < j. k \<noteq> i \<longrightarrow> \<not> (Matches (expectations m ! k) r \<and> eligible (expectations m ! k)))"
  have "first_eligible (expectations m) r = Some j"
    using assms(2,4) a by (intro first_eligible_first) blast+
  then show "Requested m r = (grant m j, response (expectations m ! j))"
    by (rule Requested_granted)
qed

text \<open>At two expectations for \<^verbatim>\<open>GET /widgets\<close>, each allowed once: the first request goes
  to the first, the second request to the second.\<close>

theorem first_registered_eligible_wins_witness:
  "(0::nat) < 1 \<and> 1 < length (expectations two_widgets)
   \<and> Matches (expectations two_widgets ! 0) example_request
   \<and> Matches (expectations two_widgets ! 1) example_request
   \<and> eligible (expectations two_widgets ! 0)
   \<and> first_eligible (expectations two_widgets) example_request \<noteq> Some 1
   \<and> Requested two_widgets example_request
       = (grant two_widgets 0, response (expectations two_widgets ! 0))
   \<and> \<not> eligible (expectations (grant two_widgets 0) ! 0)
   \<and> Requested (grant two_widgets 0) example_request
       = (grant (grant two_widgets 0) 1, response (expectations (grant two_widgets 0) ! 1))"
proof -
  have h1: "(0::nat) < 1" by simp
  have h2: "1 < length (expectations two_widgets)" by (simp add: reg_defs)
  have h3: "Matches (expectations two_widgets ! 0) example_request"
    by (simp add: reg_defs example_request_def)
  have h4: "Matches (expectations two_widgets ! 1) example_request"
    by (simp add: reg_defs example_request_def)
  have e0: "eligible (expectations two_widgets ! 0)" by (simp add: reg_defs)
  note t = first_registered_eligible_wins[OF h1 h2 h3 h4]
  have c1: "first_eligible (expectations two_widgets) example_request \<noteq> Some 1"
    using t[THEN conjunct1] e0 by (rule mp)
  have c2: "Requested two_widgets example_request
       = (grant two_widgets 0, response (expectations two_widgets ! 0))"
    using t[THEN conjunct2, THEN conjunct1] e0 by simp
  have g2: "1 < length (expectations (grant two_widgets 0))" by (simp add: reg_defs)
  have g3: "Matches (expectations (grant two_widgets 0) ! 0) example_request"
    by (simp add: reg_defs example_request_def)
  have g4: "Matches (expectations (grant two_widgets 0) ! 1) example_request"
    by (simp add: reg_defs example_request_def)
  have x0: "\<not> eligible (expectations (grant two_widgets 0) ! 0)" by (simp add: reg_defs)
  have e1: "eligible (expectations (grant two_widgets 0) ! 1)" by (simp add: reg_defs)
  note u = first_registered_eligible_wins[OF h1 g2 g3 g4]
  have c3: "Requested (grant two_widgets 0) example_request
       = (grant (grant two_widgets 0) 1, response (expectations (grant two_widgets 0) ! 1))"
    using u[THEN conjunct2, THEN conjunct2] x0 e1 by simp
  show ?thesis by (intro conjI h1 h2 h3 h4 e0 c1 c2 x0 c3)
qed

text \<open>
  Claim C8. For an expectation with \<open>timesExpected = N\<close> and \<open>timesMatched \<le> N\<close>:
  after every run of registry operations \<open>timesMatched \<le> N\<close> still holds, and the
  matches already counted plus the requests of the run granted to it are at most \<open>N\<close>;
  the bound of every expectation of a registry is kept by every run; once
  \<open>timesMatched = N\<close> no request is granted to it, and when no other expectation
  matches with matches left, \<^verbatim>\<open>Requested\<close> returns the 404 response and records one
  failure.
\<close>

theorem repeat_count_bounds_matches:
  assumes "i < length (expectations m)"
    and "timesExpected (expectations m ! i) = Some N"
    and "timesMatched (expectations m ! i) \<le> N"
  shows "timesMatched (expectations (apply_ops xs m) ! i) \<le> N
       \<and> timesMatched (expectations m ! i) + grants i xs m \<le> N
       \<and> (list_all within_bound (expectations m)
            \<longrightarrow> list_all within_bound (expectations (apply_ops xs m)))
       \<and> (timesMatched (expectations m ! i) = N \<longrightarrow> first_eligible (expectations m) r \<noteq> Some i)
       \<and> (timesMatched (expectations m ! i) = N
            \<and> (\<forall>k < length (expectations m). k \<noteq> i \<longrightarrow>
                  \<not> (Matches (expectations m ! k) r \<and> eligible (expectations m ! k)))
          \<longrightarrow> Requested m r =
                (m\<lparr>failures := failures m @ [no_match_diagnostic r (expectations m)]\<rparr>,
                 not_found_Response)
              \<and> statusCode (snd (Requested m r)) = 404)"
proof -
  note run = apply_ops_bounded[OF assms, of xs]
  have c1: "timesMatched (expectations (apply_ops xs m) ! i) \<le> N" using run by simp
  have c2: "timesMatched (expectations m ! i) + grants i xs m \<le> N" using run by simp
  have c3: "list_all within_bound (expectations m)
      \<longrightarrow> list_all within_bound (expectations (apply_ops xs m))"
    by (simp add: apply_ops_within_bound)
  have ne: "\<not> eligible (expectations m ! i)" if "timesMatched (expectations m ! i) = N"
    using assms(2) that by (simp add: exhausted_not_eligible)
  have c4: "timesMatched (expectations m ! i) = N \<longrightarrow> first_eligible (expectations m) r \<noteq> Some i"
  proof (intro impI notI)
    assume "timesMatched (expectations m ! i) = N" and "first_eligible (expectations m) r = Some i"
    from first_eligible_Some[OF this(2)] ne[OF this(1)] show False by simp
  qed
  have c5: "timesMatched (expectations m ! i) = N
            \<and> (\<forall>k < length (expectations m). k \<noteq> i \<longrightarrow>
                  \<not> (Matches (expectations m ! k) r \<and> eligible (expectations m ! k)))
          \<longrightarrow> Requested m r =
                (m\<lparr>failures := failures m @ [no_match_diagnostic r (expectations m)]\<rparr>,
                 not_found_Response)
              \<and> statusCode (snd (Requested m r)) = 404"
  proof
    assume a: "timesMatched (expectations m ! i) = N
      \<and> (\<forall>k < length (expectations m). k \<noteq> i \<longrightarrow>
            \<not> (Matches (expectations m ! k) r \<and> eligible (expectations m ! k)))"
    have "\<not> (Matches e r \<and> eligible e)" if "e \<in> set (expectations m)" for e
    proof -
      from that obtain k where k: "k < length (expectations m)" "e = expectations m ! k"
        by (auto simp: in_set_conv_nth)
      show ?thesis using a ne k by (cases "k = i") simp_all
    qed
    then have none: "first_eligible (expectations m) r = None"
      by (simp add: first_eligible_None)
    then show "Requested m r =
        (m\<lparr>failures := failures m @ [no_match_diagnostic r (expectations m)]\<rparr>, not_found_Response)
        \<and> statusCode (snd (Requested m r)) = 404"
      by (simp add: Requested_not_found not_found_Response_def StatusNotFound_def)
  qed
  show ?thesis by (intro conjI c1 c2 c3 c4 c5)
qed

text \<open>At one expectation for \<^verbatim>\<open>GET /widgets\<close>, allowed once: three requests in a run
  grant it at most once, and a request after it is exhausted yields 404.\<close>

theorem repeat_count_bounds_matches_witness:
  "0 < length (expectations one_widget)
   \<and> timesExpected (expectations one_widget ! 0) = Some 1
   \<and> timesMatched (expectations one_widget ! 0) \<le> 1
   \<and> grants 0 [Op_Requested example_request, Op_Requested example_request,
         Op_On ''GET'' ''/other'' [], Op_Requested example_request] one_widget \<le> 1
   \<and> timesMatched (expectations (apply_ops [Op_Requested example_request,
         Op_Requested example_request, Op_On ''GET'' ''/other'' [],
         Op_Requested example_request] one_widget) ! 0) \<le> 1
   \<and> timesMatched (expectations (grant one_widget 0) ! 0) = 1
   \<and> first_eligible (expectations (grant one_widget 0)) example_request \<noteq> Some 0
   \<and> Requested (grant one_widget 0) example_request
       = ((grant one_widget 0)\<lparr>failures := failures (grant one_widget 0)
             @ [no_match_diagnostic example_request (expectations (grant one_widget 0))]\<rparr>,
          not_found_Response)
   \<and> statusCode (snd (Requested (grant one_widget 0) example_request)) = 404"
proof -
  let ?xs = "[Op_Requested example_request, Op_Requested example_request,
         Op_On ''GET'' ''/other'' [], Op_Requested example_request]"
  have h1: "0 < length (expectations one_widget)" by (simp add: reg_defs)
  have h2: "timesExpected (expectations one_widget ! 0) = Some 1" by (simp add: reg_defs)
  have h3: "timesMatched (expectations one_widget ! 0) \<le> 1" by (simp add: reg_defs)
  note t = repeat_count_bounds_matches[OF h1 h2 h3, of ?xs example_request]
  have z: "timesMatched (expectations one_widget ! 0) = 0" by (simp add: reg_defs)
  have c1: "grants 0 ?xs one_widget \<le> 1"
    using t[THEN conjunct2, THEN conjunct1] z by simp
  have c2: "timesMatched (expectations (apply_ops ?xs one_widget) ! 0) \<le> 1"
    by (rule t[THEN conjunct1])
  have g1: "0 < length (expectations (grant one_widget 0))" by (simp add: reg_defs)
  have g2: "timesExpected (expectations (grant one_widget 0) ! 0) = Some 1" by (simp add: reg_defs)
  have g3: "timesMatched (expectations (grant one_widget 0) ! 0) \<le> 1" by (simp add: reg_defs)
  have x: "timesMatched (expectations (grant one_widget 0) ! 0) = 1" by (simp add: reg_defs)
  have o: "\<forall>k < length (expectations (grant one_widget 0)). k \<noteq> 0 \<longrightarrow>
      \<not> (Matches (expectations (grant one_widget 0) ! k) example_request
          \<and> eligible (expectations (grant one_widget 0) ! k))"
    by (simp add: reg_defs)
  note u = repeat_count_bounds_matches[OF g1 g2 g3, of "[]" example_request]
  have c4: "first_eligible (expectations (grant one_widget 0)) example_request \<noteq> Some 0"
    using u[THEN conjunct2, THEN conjunct2, THEN conjunct2, THEN conjunct1] x by (rule mp)
  note c5 = u[THEN conjunct2, THEN conjunct2, THEN conjunct2, THEN conjunct2, THEN mp,
      OF conjI[OF x o]]
  show ?thesis by (intro conjI h1 h2 h3 c1 c2 x c4 c5[THEN conjunct1] c5[THEN conjunct2])
qed

end
